theory Spec2Isabelle
  imports Complex_Main "HOL-Library.Signed_Division" "HOL-Library.Char_ord" "HOL-Library.Sublist"
begin

section \<open>The fitness tracker: packages spentcalories and daysteps\<close>

text \<open>
  The two Go packages are embedded function by function.

  \<^item> A Go \<open>string\<close> is a sequence of bytes: \<open>string\<close> (a \<open>char list\<close>). The Cyrillic
    literals of the source are written as their UTF-8 bytes.
  \<^item> Go's \<open>int\<close> is \<open>int\<close>, for a 64-bit platform: \<open>strconv.Atoi\<close> only produces
    values between \<open>-2^63\<close> and \<open>2^63 - 1\<close>.
  \<^item> \<open>time.Duration\<close> is a count of nanoseconds, an \<open>int\<close>; \<open>time.ParseDuration\<close>
    only produces values of the same 64-bit range.
  \<^item> \<open>float64\<close> is idealised as \<open>real\<close>: the arithmetic is exact and there is no NaN and
    no infinity. Every formula below is written with the operations of the source, in
    the order of the source. Two places do not rest on the idealisation: the division
    of \<open>meanSpeed\<close>, the only one by a variable, is checked for a zero divisor, and the
    fraction inside \<open>time.ParseDuration\<close>, which is truncated to an integer, is computed
    with the rounding of binary64.
  \<^item> A function of the two packages that returns \<open>(v, error)\<close> returns a pair whose last
    component is an \<open>error option\<close>; \<open>None\<close> is \<open>nil\<close>. The value returned beside an
    error is the one the source returns.
  \<^item> The functions of the standard library that the packages call (\<open>strings.Split\<close>,
    \<open>strconv.Atoi\<close>, \<open>time.ParseDuration\<close>, \<open>Duration.Hours\<close>, \<open>Duration.Minutes\<close> and
    the verbs \<open>%d\<close>, \<open>%s\<close> and \<open>%.2f\<close> of \<open>fmt.Sprintf\<close>) are modelled after their Go
    implementation. Those that can fail return a sum, \<open>Inl\<close> the error: their callers
    read the value only when there is no error.
  \<^item> \<open>log.Println\<close> is the only effect of the program; the logger is an explicit state,
    the list of the errors printed so far.
\<close>

type_synonym float64 = real
type_synonym Duration = int

subsection \<open>Standard library: bytes and digits\<close>

definition isDigit :: "char \<Rightarrow> bool" where
  "isDigit c = (CHR ''0'' \<le> c \<and> c \<le> CHR ''9'')"

definition digitVal :: "char \<Rightarrow> nat" where
  "digitVal c = of_char c - 48"

definition digitChar :: "nat \<Rightarrow> char" where
  "digitChar n = char_of (48 + n)"

subsection \<open>Standard library: strings.Split with a one-byte separator\<close>

text \<open>
  \<open>strings.Split(s, sep)\<close> cuts \<open>s\<close> at every occurrence of \<open>sep\<close>; a string without
  the separator, the empty string included, gives one field.
\<close>

fun Split :: "string \<Rightarrow> char \<Rightarrow> string list" where
  "Split [] sep = [[]]"
| "Split (c # cs) sep =
     (if c = sep then [] # Split cs sep
      else (case Split cs sep of [] \<Rightarrow> [[c]] | p # ps \<Rightarrow> (c # p) # ps))"

subsection \<open>Standard library: strconv.Atoi\<close>

datatype NumError = ErrSyntax string | ErrRange string

text \<open>
  The digit loop of \<open>strconv.ParseUint(s, 10, 64)\<close>: a byte that is no digit is a
  syntax error, a value beyond \<open>2^64 - 1\<close> is a range error, whichever comes first.
\<close>

datatype uint_result = UintOk nat | UintSyntax | UintRange

fun parseUintLoop :: "string \<Rightarrow> nat \<Rightarrow> uint_result" where
  "parseUintLoop [] n = UintOk n"
| "parseUintLoop (c # cs) n =
     (if \<not> isDigit c then UintSyntax
      else if n \<ge> (2 ^ 64 - 1) div 10 + 1 then UintRange
      else (let n1 = n * 10 + digitVal c in
        if n1 > 2 ^ 64 - 1 then UintRange else parseUintLoop cs n1))"

definition ParseUint :: "string \<Rightarrow> uint_result" where
  "ParseUint s = (if s = [] then UintSyntax else parseUintLoop s 0)"

text \<open>
  \<open>strconv.ParseInt(s, 10, 0)\<close> on a 64-bit platform: an optional sign, then
  \<open>ParseUint\<close>, then the range check of the signed type.
\<close>

definition ParseInt :: "string \<Rightarrow> NumError + int" where
  "ParseInt s0 =
     (if s0 = [] then Inl (ErrSyntax s0)
      else (let neg = (hd s0 = CHR ''-'');
                s = (if hd s0 = CHR ''+'' \<or> hd s0 = CHR ''-'' then tl s0 else s0)
        in case ParseUint s of
             UintSyntax \<Rightarrow> Inl (ErrSyntax s0)
           | UintRange \<Rightarrow> Inl (ErrRange s0)
           | UintOk un \<Rightarrow>
               if \<not> neg \<and> un \<ge> 2 ^ 63 then Inl (ErrRange s0)
               else if neg \<and> un > 2 ^ 63 then Inl (ErrRange s0)
               else Inr (if neg then - int un else int un)))"

text \<open>
  The fast path of \<open>strconv.Atoi\<close> for strings shorter than 19 bytes, which cannot
  overflow: an optional sign, then digits only.
\<close>

fun atoiFastLoop :: "string \<Rightarrow> int \<Rightarrow> int option" where
  "atoiFastLoop [] n = Some n"
| "atoiFastLoop (ch # cs) n =
     (if \<not> isDigit ch then None else atoiFastLoop cs (n * 10 + int (digitVal ch)))"

definition atoiFast :: "string \<Rightarrow> NumError + int" where
  "atoiFast s0 =
     (let s = (if hd s0 = CHR ''-'' \<or> hd s0 = CHR ''+'' then tl s0 else s0) in
      if s = [] then Inl (ErrSyntax s0)
      else (case atoiFastLoop s 0 of
              None \<Rightarrow> Inl (ErrSyntax s0)
            | Some n \<Rightarrow> Inr (if hd s0 = CHR ''-'' then - n else n)))"

definition Atoi :: "string \<Rightarrow> NumError + int" where
  "Atoi s = (if 0 < length s \<and> length s < 19 then atoiFast s else ParseInt s)"

subsection \<open>Standard library: time.Duration\<close>

definition Nanosecond :: Duration where "Nanosecond = 1"
definition Microsecond :: Duration where "Microsecond = 1000 * Nanosecond"
definition Millisecond :: Duration where "Millisecond = 1000 * Microsecond"
definition Second :: Duration where "Second = 1000 * Millisecond"
definition Minute :: Duration where "Minute = 60 * Second"
definition Hour :: Duration where "Hour = 60 * Minute"

text \<open>
  \<open>Duration.Hours\<close> and \<open>Duration.Minutes\<close>: the whole units by the truncating integer
  division of Go, the rest as a fraction.
\<close>

definition Hours :: "Duration \<Rightarrow> float64" where
  "Hours d =
     (let hour = d sdiv Hour; nsec = d smod Hour
      in of_int hour + of_int nsec / (60 * 60 * 1000000000))"

definition Minutes :: "Duration \<Rightarrow> float64" where
  "Minutes d =
     (let min = d sdiv Minute; nsec = d smod Minute
      in of_int min + of_int nsec / (60 * 1000000000))"

subsection \<open>Rounding\<close>

text \<open>Rounding to the nearest integer, to the even one on a tie.\<close>

definition roundHalfEven :: "real \<Rightarrow> int" where
  "roundHalfEven x =
     (let f = \<lfloor>x\<rfloor>; r = x - of_int f
      in if r < 1 / 2 then f
         else if 1 / 2 < r then f + 1
         else if even f then f else f + 1)"

text \<open>
  \<open>time.ParseDuration\<close> computes the fraction of a number in \<open>float64\<close> and truncates
  the result to whole nanoseconds, so the result depends on the rounding of \<open>float64\<close>.
  For this one computation the rounding is modelled: \<open>round64 x\<close> is the binary64 value
  nearest to a real \<open>x\<close> that is not negative (53 bits, ties to even, subnormal below
  \<open>2^-1022\<close>), with no bound on the exponent above; the one value that can overflow,
  the scale of the fraction, is checked where it is computed.
\<close>

fun bits :: "nat \<Rightarrow> nat" where
  "bits n = (if n = 0 then 0 else Suc (bits (n div 2)))"

declare bits.simps [simp del]

definition pow2 :: "int \<Rightarrow> real" where
  "pow2 k = (if 0 \<le> k then 2 ^ nat k else 1 / 2 ^ nat (- k))"

text \<open>\<open>ilog2 x\<close> is the integer \<open>e\<close> with \<open>2^e \<le> x < 2^(e+1)\<close>, for \<open>x > 0\<close>.\<close>

definition ilog2 :: "real \<Rightarrow> int" where
  "ilog2 x =
     (if 1 \<le> x then int (bits (nat \<lfloor>x\<rfloor>)) - 1
      else (let j = int (bits (nat \<lfloor>1 / x\<rfloor>)) - 1
        in if x * pow2 j = 1 then - j else - (j + 1)))"

definition round64 :: "real \<Rightarrow> real" where
  "round64 x =
     (if x = 0 then 0
      else (let e = max (ilog2 x) (- 1022); q = pow2 (e - 52)
        in of_int (roundHalfEven (x / q)) * q))"

text \<open>
  A \<open>float64\<close> of \<open>time.ParseDuration\<close>: a real that binary64 represents, or \<open>None\<close> for
  \<open>+Inf\<close>. \<open>times10\<close> is the statement \<open>scale *= 10\<close>.
\<close>

type_synonym binary64 = "real option"

definition times10 :: "binary64 \<Rightarrow> binary64" where
  "times10 scale =
     (case scale of
        None \<Rightarrow> None
      | Some s \<Rightarrow> (let y = round64 (s * 10) in if 2 ^ 1024 \<le> y then None else Some y))"

text \<open>
  \<open>uint64(float64(f) * (float64(unit) / scale))\<close>, for \<open>f\<close> and \<open>unit\<close> of type \<open>uint64\<close>:
  the two conversions, the quotient and the product are each rounded, the result is
  truncated. A unit divided by \<open>+Inf\<close> is 0.
\<close>

definition fractionNanos :: "nat \<Rightarrow> nat \<Rightarrow> binary64 \<Rightarrow> nat" where
  "fractionNanos f unit scale =
     (case scale of
        None \<Rightarrow> 0
      | Some s \<Rightarrow>
          nat \<lfloor>round64 (round64 (real f) * round64 (round64 (real unit) / s))\<rfloor>)"

subsection \<open>Standard library: time.ParseDuration\<close>

datatype DurationError =
    InvalidDuration string
  | MissingUnit string
  | UnknownUnit string string

text \<open>\<open>leadingInt\<close>: the leading digits as a number; \<open>None\<close> on overflow.\<close>

fun leadingInt :: "string \<Rightarrow> nat \<Rightarrow> (nat \<times> string) option" where
  "leadingInt [] x = Some (x, [])"
| "leadingInt (c # cs) x =
     (if \<not> isDigit c then Some (x, c # cs)
      else if x > 2 ^ 63 div 10 then None
      else (let x1 = x * 10 + digitVal c in
        if x1 > 2 ^ 63 then None else leadingInt cs x1))"

text \<open>
  \<open>leadingFraction\<close>: the leading digits as a numerator and a power of ten; on
  overflow it stops accumulating and still consumes the digits.
\<close>

fun leadingFraction ::
    "string \<Rightarrow> nat \<Rightarrow> binary64 \<Rightarrow> bool \<Rightarrow> nat \<times> binary64 \<times> string" where
  "leadingFraction [] x scale overflow = (x, scale, [])"
| "leadingFraction (c # cs) x scale overflow =
     (if \<not> isDigit c then (x, scale, c # cs)
      else if overflow then leadingFraction cs x scale overflow
      else if x > (2 ^ 63 - 1) div 10 then leadingFraction cs x scale True
      else (let y = x * 10 + digitVal c in
        if y > 2 ^ 63 then leadingFraction cs x scale True
        else leadingFraction cs y (times10 scale) overflow))"

definition unitMap :: "string \<Rightarrow> nat option" where
  "unitMap u =
     (if u = ''ns'' then Some 1
      else if u = ''us'' then Some 1000
      else if u = [CHR 0xC2, CHR 0xB5] @ ''s'' then Some 1000
      else if u = [CHR 0xCE, CHR 0xBC] @ ''s'' then Some 1000
      else if u = ''ms'' then Some 1000000
      else if u = ''s'' then Some 1000000000
      else if u = ''m'' then Some 60000000000
      else if u = ''h'' then Some 3600000000000
      else None)"

definition unitByte :: "char \<Rightarrow> bool" where
  "unitByte c = (\<not> (c = CHR ''.'' \<or> isDigit c))"

text \<open>
  One round of the loop of \<open>ParseDuration\<close>: a number, an optional fraction and a unit
  are consumed from \<open>s\<close> (not empty); the result is the value in nanoseconds and the
  rest of the string. \<open>orig\<close> is the whole input, for the error.
\<close>

definition parseGroup :: "string \<Rightarrow> string \<Rightarrow> DurationError + (nat \<times> string)" where
  "parseGroup orig s =
     (if \<not> (hd s = CHR ''.'' \<or> isDigit (hd s)) then Inl (InvalidDuration orig)
      else (case leadingInt s 0 of
        None \<Rightarrow> Inl (InvalidDuration orig)
      | Some (v, s1) \<Rightarrow>
         (let pre = (length s \<noteq> length s1);
              dot = (s1 \<noteq> [] \<and> hd s1 = CHR ''.'');
              fr = (if dot then leadingFraction (tl s1) 0 (Some 1) False
                    else (0, Some 1, s1));
              f = fst fr; scale = fst (snd fr); s2 = snd (snd fr);
              post = (dot \<and> length (tl s1) \<noteq> length s2)
          in if \<not> pre \<and> \<not> post then Inl (InvalidDuration orig)
          else (let u = takeWhile unitByte s2; s3 = dropWhile unitByte s2
            in if u = [] then Inl (MissingUnit orig)
            else (case unitMap u of
              None \<Rightarrow> Inl (UnknownUnit u orig)
            | Some unit \<Rightarrow>
                if v > 2 ^ 63 div unit then Inl (InvalidDuration orig)
                else (let v1 = v * unit;
                          v2 = (if f > 0 then v1 + fractionNanos f unit scale else v1)
                  in if f > 0 \<and> v2 > 2 ^ 63 then Inl (InvalidDuration orig)
                  else Inr (v2, s3)))))))"

text \<open>
  The loop of \<open>ParseDuration\<close> over the groups; \<open>d\<close> is a \<open>uint64\<close>, whose addition
  wraps around.
\<close>

function durationLoop :: "string \<Rightarrow> string \<Rightarrow> nat \<Rightarrow> DurationError + nat" where
  "durationLoop orig s d =
     (if s = [] then Inr d
      else (case parseGroup orig s of
        Inl e \<Rightarrow> Inl e
      | Inr (v, rest) \<Rightarrow>
          (let d1 = (d + v) mod 2 ^ 64 in
           if d1 > 2 ^ 63 then Inl (InvalidDuration orig)
           else durationLoop orig rest d1)))"
  by pat_completeness auto
termination
proof (relation "measure (\<lambda>(orig, s, d). length s)")
  show "wf (measure (\<lambda>(orig :: string, s :: string, d :: nat). length s))"
    by simp
next
  fix orig s :: string and d :: nat and x2 :: "nat \<times> string" and v :: nat
    and rest :: string and d1 :: nat
  assume ne: "s \<noteq> []" and pg: "parseGroup orig s = Inr x2" and x2: "(v, rest) = x2"
  have li: "length r \<le> length t" if "leadingInt t x = Some (w, r)" for t x w r
    using that
    by (induction t x rule: leadingInt.induct) (auto simp: Let_def split: if_splits)
  have lf: "length (snd (snd (leadingFraction t x sc ov))) \<le> length t" for t x sc ov
    by (induction t arbitrary: x sc ov) (auto simp: Let_def le_SucI)
  have dw: "length (dropWhile P t) < length t" if "takeWhile P t \<noteq> []" for P and t :: string
    using that by (cases t) (auto simp: le_imp_less_Suc length_dropWhile_le split: if_splits)
  obtain w s1 where l1: "leadingInt s 0 = Some (w, s1)"
    using pg by (auto simp: parseGroup_def split: if_splits option.splits)
  define dot where "dot = (s1 \<noteq> [] \<and> hd s1 = CHR ''.'')"
  define s2 where
    "s2 = snd (snd (if dot then leadingFraction (tl s1) 0 (Some 1) False
                    else (0, Some 1, s1)))"
  have "length s2 \<le> length s1"
  proof (cases dot)
    case True
    then have "length s2 \<le> length (tl s1)"
      using lf [of "tl s1" 0 "Some 1" False] by (simp add: s2_def)
    then show ?thesis by simp
  next
    case False
    then show ?thesis by (simp add: s2_def)
  qed
  moreover have "length s1 \<le> length s"
    using li [OF l1] .
  moreover have "takeWhile unitByte s2 \<noteq> [] \<and> rest = dropWhile unitByte s2"
    using pg x2 l1
    by (auto simp: parseGroup_def Let_def s2_def dot_def
        split: if_splits option.splits)
  then have "length rest < length s2"
    using dw [of unitByte s2] by simp
  ultimately show "((orig, rest, d1), (orig, s, d)) \<in> measure (\<lambda>(orig, s, d). length s)"
    by simp
qed

definition ParseDuration :: "string \<Rightarrow> DurationError + Duration" where
  "ParseDuration orig =
     (let signed = (orig \<noteq> [] \<and> (hd orig = CHR ''-'' \<or> hd orig = CHR ''+''));
          neg = (signed \<and> hd orig = CHR ''-'');
          s = (if signed then tl orig else orig)
      in if s = ''0'' then Inr 0
      else if s = [] then Inl (InvalidDuration orig)
      else (case durationLoop orig s 0 of
        Inl e \<Rightarrow> Inl e
      | Inr d \<Rightarrow>
          if neg then Inr (- int d)
          else if d > 2 ^ 63 - 1 then Inl (InvalidDuration orig)
          else Inr (int d)))"

subsection \<open>Standard library: the verbs of fmt.Sprintf\<close>

text \<open>\<open>%d\<close>: the decimal digits of an integer, with a minus sign when negative.\<close>

fun utoa :: "nat \<Rightarrow> string" where
  "utoa n = (if n < 10 then [digitChar n] else utoa (n div 10) @ [digitChar (n mod 10)])"

declare utoa.simps [simp del]

definition itoa :: "int \<Rightarrow> string" where
  "itoa i = (if i < 0 then CHR ''-'' # utoa (nat (- i)) else utoa (nat i))"

text \<open>
  \<open>%.2f\<close>: the value rounded to two decimals, to the nearest and to the even digit on
  a tie, with the sign of the value.
\<close>

definition formatFloat2 :: "float64 \<Rightarrow> string" where
  "formatFloat2 x =
     (let n = nat (roundHalfEven (\<bar>x\<bar> * 100))
      in (if x < 0 then ''-'' else []) @ utoa (n div 100) @ ''.'' @
         [digitChar (n mod 100 div 10), digitChar (n mod 10)])"

subsection \<open>Errors and the logger\<close>

text \<open>
  One constructor for each message of the source, with the values the message prints:
  \<^item> \<open>DayInvalidFormat\<close>: "invalid data format, expected 'steps,duration', got: %s"
  \<^item> \<open>TrainingInvalidFormat\<close>: "invalid data format: %s"
  \<^item> \<open>ParsingStepsFailed\<close>: "parsing steps failed: %w"
  \<^item> \<open>StepsNotPositive\<close>: "steps must be greater than zero, got: %d"
  \<^item> \<open>ParsingDurationFailed\<close>: "parsing duration failed: %w"
  \<^item> \<open>WalkDurationNotPositive\<close>: "walk duration must be greater than zero, got: %s"
  \<^item> \<open>ActivityDurationNotPositive\<close>: "activity duration must be greater than zero, got: %s"
  \<^item> \<open>DurationNotPositive\<close>: "duration must be greater than zero, got: %s"
  \<^item> \<open>WeightNotPositive\<close>: "weight must be greater than zero, got: %f"
  \<^item> \<open>HeightNotPositive\<close>: "height must be greater than zero, got: %f"
  \<^item> \<open>UnknownTrainingType\<close>: the message of the \<open>default\<close> branch of \<open>TrainingInfo\<close>
    (in Russian: unknown training type).
\<close>

datatype error =
    DayInvalidFormat string
  | TrainingInvalidFormat string
  | ParsingStepsFailed NumError
  | StepsNotPositive int
  | ParsingDurationFailed DurationError
  | WalkDurationNotPositive Duration
  | ActivityDurationNotPositive Duration
  | DurationNotPositive Duration
  | WeightNotPositive float64
  | HeightNotPositive float64
  | UnknownTrainingType

type_synonym logger = "error list"

definition Println :: "error \<Rightarrow> logger \<Rightarrow> logger" where
  "Println err lg = lg @ [err]"

section \<open>Package spentcalories\<close>

definition LenStep :: float64 where "LenStep = 0.65"
definition MInKm :: int where "MInKm = 1000"
definition minInH :: int where "minInH = 60"
definition stepLengthCoefficient :: float64 where "stepLengthCoefficient = 0.45"
definition walkingCaloriesCoefficient :: float64 where "walkingCaloriesCoefficient = 0.5"

text \<open>The two activity labels, in UTF-8: the Russian words for running and for walking.\<close>

definition running :: string where
  "running = [CHR 0xD0, CHR 0x91, CHR 0xD0, CHR 0xB5, CHR 0xD0, CHR 0xB3]"

definition walking :: string where
  "walking = [CHR 0xD0, CHR 0xA5, CHR 0xD0, CHR 0xBE, CHR 0xD0, CHR 0xB4, CHR 0xD1, CHR 0x8C,
      CHR 0xD0, CHR 0xB1, CHR 0xD0, CHR 0xB0]"

definition parseTraining :: "string \<Rightarrow> int \<times> string \<times> Duration \<times> error option" where
  "parseTraining data =
     (let parts = Split data (CHR '','') in
      if length parts \<noteq> 3 then (0, [], 0, Some (TrainingInvalidFormat data))
      else (let stepCount = parts ! 0; activity = parts ! 1; durationText = parts ! 2 in
        case Atoi stepCount of
          Inl err \<Rightarrow> (0, activity, 0, Some (ParsingStepsFailed err))
        | Inr count \<Rightarrow>
            if count \<le> 0 then (0, activity, 0, Some (StepsNotPositive count))
            else (case ParseDuration durationText of
              Inl err \<Rightarrow> (0, activity, 0, Some (ParsingDurationFailed err))
            | Inr duration \<Rightarrow>
                if duration \<le> 0
                then (0, activity, 0, Some (ActivityDurationNotPositive duration))
                else (count, activity, duration, None))))"

definition distance :: "int \<Rightarrow> float64 \<Rightarrow> float64" where
  "distance steps height =
     (if steps \<le> 0 \<or> height \<le> 0 then 0
      else stepLengthCoefficient * height * of_int steps / of_int MInKm)"

text \<open>
  \<open>meanSpeed\<close> holds the one division of the two packages whose divisor is not a
  constant. Go's \<open>x / 0.0\<close> is \<open>+Inf\<close>, \<open>-Inf\<close> or \<open>NaN\<close>, values that the idealisation of
  \<open>float64\<close> does not have, and the division of the reals is total (\<open>x / 0 = 0\<close>). So
  the division of \<open>meanSpeed\<close> is checked: \<open>fdiv\<close> is \<open>None\<close> on a zero divisor. The body
  of the source function is \<open>meanSpeed_checked\<close>; \<open>meanSpeed\<close> is its value, which the
  callers use.
\<close>

definition fdiv :: "float64 \<Rightarrow> float64 \<Rightarrow> float64 option" where
  "fdiv x y = (if y = 0 then None else Some (x / y))"

definition meanSpeed_checked :: "int \<Rightarrow> float64 \<Rightarrow> Duration \<Rightarrow> float64 option" where
  "meanSpeed_checked steps height duration =
     (if steps \<le> 0 \<or> height \<le> 0 \<or> duration \<le> 0 then Some 0
      else fdiv (distance steps height) (Hours duration))"

definition meanSpeed :: "int \<Rightarrow> float64 \<Rightarrow> Duration \<Rightarrow> float64" where
  "meanSpeed steps height duration =
     (case meanSpeed_checked steps height duration of Some v \<Rightarrow> v | None \<Rightarrow> 0)"

definition RunningSpentCalories ::
    "int \<Rightarrow> float64 \<Rightarrow> float64 \<Rightarrow> Duration \<Rightarrow> float64 \<times> error option" where
  "RunningSpentCalories steps weight height duration =
     (if steps \<le> 0 then (0, Some (StepsNotPositive steps))
      else if weight \<le> 0 then (0, Some (WeightNotPositive weight))
      else if height \<le> 0 then (0, Some (HeightNotPositive height))
      else if duration \<le> 0 then (0, Some (DurationNotPositive duration))
      else ((weight * meanSpeed steps height duration * Minutes duration) / of_int minInH,
            None))"

definition WalkingSpentCalories ::
    "int \<Rightarrow> float64 \<Rightarrow> float64 \<Rightarrow> Duration \<Rightarrow> float64 \<times> error option" where
  "WalkingSpentCalories steps weight height duration =
     (case RunningSpentCalories steps weight height duration of
        (calories, err) \<Rightarrow>
          (case err of
             Some e \<Rightarrow> (0, Some e)
           | None \<Rightarrow> (calories * walkingCaloriesCoefficient, None)))"

text \<open>
  The format of \<open>TrainingInfo\<close>: five lines, which read in Russian "training type: %s",
  "duration: %.2f h.", "distance: %.2f km.", "speed: %.2f km/h" and
  "calories burnt: %.2f".
\<close>

definition trainingFormat ::
    "string \<Rightarrow> float64 \<Rightarrow> float64 \<Rightarrow> float64 \<Rightarrow> float64 \<Rightarrow> string" where
  "trainingFormat activity hours dist_km speed calories =
     ([CHR 0xD0, CHR 0xA2, CHR 0xD0, CHR 0xB8, CHR 0xD0, CHR 0xBF] @ '' '' @ [CHR 0xD1,
      CHR 0x82, CHR 0xD1, CHR 0x80, CHR 0xD0, CHR 0xB5, CHR 0xD0, CHR 0xBD, CHR 0xD0,
      CHR 0xB8, CHR 0xD1, CHR 0x80, CHR 0xD0, CHR 0xBE, CHR 0xD0, CHR 0xB2, CHR 0xD0,
      CHR 0xBA, CHR 0xD0, CHR 0xB8] @ '': '') @ activity @
     ([CHR 0x0A, CHR 0xD0, CHR 0x94, CHR 0xD0, CHR 0xBB, CHR 0xD0, CHR 0xB8, CHR 0xD1,
      CHR 0x82, CHR 0xD0, CHR 0xB5, CHR 0xD0, CHR 0xBB, CHR 0xD1, CHR 0x8C, CHR 0xD0,
      CHR 0xBD, CHR 0xD0, CHR 0xBE, CHR 0xD1, CHR 0x81, CHR 0xD1, CHR 0x82, CHR 0xD1,
      CHR 0x8C] @ '': '') @ formatFloat2 hours @
     ('' '' @ [CHR 0xD1, CHR 0x87] @ ''.'' @ [CHR 0x0A, CHR 0xD0, CHR 0x94, CHR 0xD0,
      CHR 0xB8, CHR 0xD1, CHR 0x81, CHR 0xD1, CHR 0x82, CHR 0xD0, CHR 0xB0, CHR 0xD0,
      CHR 0xBD, CHR 0xD1, CHR 0x86, CHR 0xD0, CHR 0xB8, CHR 0xD1, CHR 0x8F] @ '': '') @ formatFloat2 dist_km @
     ('' '' @ [CHR 0xD0, CHR 0xBA, CHR 0xD0, CHR 0xBC] @ ''.'' @ [CHR 0x0A, CHR 0xD0,
      CHR 0xA1, CHR 0xD0, CHR 0xBA, CHR 0xD0, CHR 0xBE, CHR 0xD1, CHR 0x80, CHR 0xD0,
      CHR 0xBE, CHR 0xD1, CHR 0x81, CHR 0xD1, CHR 0x82, CHR 0xD1, CHR 0x8C] @ '': '') @ formatFloat2 speed @
     ('' '' @ [CHR 0xD0, CHR 0xBA, CHR 0xD0, CHR 0xBC] @ ''/'' @ [CHR 0xD1, CHR 0x87,
      CHR 0x0A, CHR 0xD0, CHR 0xA1, CHR 0xD0, CHR 0xBE, CHR 0xD0, CHR 0xB6, CHR 0xD0,
      CHR 0xB3, CHR 0xD0, CHR 0xBB, CHR 0xD0, CHR 0xB8] @ '' '' @ [CHR 0xD0, CHR 0xBA,
      CHR 0xD0, CHR 0xB0, CHR 0xD0, CHR 0xBB, CHR 0xD0, CHR 0xBE, CHR 0xD1, CHR 0x80,
      CHR 0xD0, CHR 0xB8, CHR 0xD0, CHR 0xB9] @ '': '') @ formatFloat2 calories @
     [CHR 0x0A]"

definition TrainingInfo ::
    "string \<Rightarrow> float64 \<Rightarrow> float64 \<Rightarrow> logger \<Rightarrow> (string \<times> error option) \<times> logger" where
  "TrainingInfo data weight height lg =
     (if weight \<le> 0 then (([], Some (WeightNotPositive weight)), lg)
      else if height \<le> 0 then (([], Some (HeightNotPositive height)), lg)
      else (case parseTraining data of
        (steps, activity, duration, perr) \<Rightarrow>
          (case perr of
             Some e \<Rightarrow> (([], Some e), Println e lg)
           | None \<Rightarrow>
              (let switch =
                    (if activity = running
                       then Some (RunningSpentCalories steps weight height duration)
                     else if activity = walking
                       then Some (WalkingSpentCalories steps weight height duration)
                     else None)
               in case switch of
                    None \<Rightarrow> (([], Some UnknownTrainingType), lg)
                  | Some (calories, err) \<Rightarrow>
                      (case err of
                         Some e \<Rightarrow> (([], Some e), lg)
                       | None \<Rightarrow>
                          (let dist_km = distance steps height;
                               speed = meanSpeed steps height duration
                           in ((trainingFormat activity (Hours duration) dist_km speed calories,
                                None), lg)))))))"

section \<open>Package daysteps\<close>

definition parsePackage :: "string \<Rightarrow> int \<times> Duration \<times> error option" where
  "parsePackage data =
     (let parts = Split data (CHR '','') in
      if length parts \<noteq> 2 then (0, 0, Some (DayInvalidFormat data))
      else (let stepCount = parts ! 0; durationText = parts ! 1 in
        case Atoi stepCount of
          Inl err \<Rightarrow> (0, 0, Some (ParsingStepsFailed err))
        | Inr count \<Rightarrow>
            if count \<le> 0 then (0, 0, Some (StepsNotPositive count))
            else (case ParseDuration durationText of
              Inl err \<Rightarrow> (0, 0, Some (ParsingDurationFailed err))
            | Inr duration \<Rightarrow>
                if duration \<le> 0 then (0, 0, Some (WalkDurationNotPositive duration))
                else (count, duration, None))))"

text \<open>
  The format of \<open>DayActionInfo\<close>: three lines, which read in Russian
  "number of steps: %d.", "the distance was %.2f km." and "you burnt %.2f kcal.".
\<close>

definition dayFormat :: "int \<Rightarrow> float64 \<Rightarrow> float64 \<Rightarrow> string" where
  "dayFormat steps dist_km calories =
     ([CHR 0xD0, CHR 0x9A, CHR 0xD0, CHR 0xBE, CHR 0xD0, CHR 0xBB, CHR 0xD0, CHR 0xB8,
      CHR 0xD1, CHR 0x87, CHR 0xD0, CHR 0xB5, CHR 0xD1, CHR 0x81, CHR 0xD1, CHR 0x82,
      CHR 0xD0, CHR 0xB2, CHR 0xD0, CHR 0xBE] @ '' '' @ [CHR 0xD1, CHR 0x88, CHR 0xD0,
      CHR 0xB0, CHR 0xD0, CHR 0xB3, CHR 0xD0, CHR 0xBE, CHR 0xD0, CHR 0xB2] @ '': '') @ itoa steps @
     (''.'' @ [CHR 0x0A, CHR 0xD0, CHR 0x94, CHR 0xD0, CHR 0xB8, CHR 0xD1, CHR 0x81,
      CHR 0xD1, CHR 0x82, CHR 0xD0, CHR 0xB0, CHR 0xD0, CHR 0xBD, CHR 0xD1, CHR 0x86,
      CHR 0xD0, CHR 0xB8, CHR 0xD1, CHR 0x8F] @ '' '' @ [CHR 0xD1, CHR 0x81, CHR 0xD0,
      CHR 0xBE, CHR 0xD1, CHR 0x81, CHR 0xD1, CHR 0x82, CHR 0xD0, CHR 0xB0, CHR 0xD0,
      CHR 0xB2, CHR 0xD0, CHR 0xB8, CHR 0xD0, CHR 0xBB, CHR 0xD0, CHR 0xB0] @ '' '') @ formatFloat2 dist_km @
     ('' '' @ [CHR 0xD0, CHR 0xBA, CHR 0xD0, CHR 0xBC] @ ''.'' @ [CHR 0x0A, CHR 0xD0,
      CHR 0x92, CHR 0xD1, CHR 0x8B] @ '' '' @ [CHR 0xD1, CHR 0x81, CHR 0xD0, CHR 0xBE,
      CHR 0xD0, CHR 0xB6, CHR 0xD0, CHR 0xB3, CHR 0xD0, CHR 0xBB, CHR 0xD0,
      CHR 0xB8] @ '' '') @ formatFloat2 calories @
     ('' '' @ [CHR 0xD0, CHR 0xBA, CHR 0xD0, CHR 0xBA, CHR 0xD0, CHR 0xB0, CHR 0xD0,
      CHR 0xBB] @ ''.'' @ [CHR 0x0A])"

definition DayActionInfo :: "string \<Rightarrow> float64 \<Rightarrow> float64 \<Rightarrow> logger \<Rightarrow> string \<times> logger" where
  "DayActionInfo data weight height lg =
     (if weight \<le> 0 \<or> height \<le> 0 then ([], lg)
      else (case parsePackage data of
        (steps, duration, perr) \<Rightarrow>
          (case perr of
             Some e \<Rightarrow> ([], Println e lg)
           | None \<Rightarrow>
              (let dist_km = of_int steps * LenStep / of_int MInKm in
               case WalkingSpentCalories steps weight height duration of
                 (calories, err) \<Rightarrow>
                   (case err of
                      Some e \<Rightarrow> ([], lg)
                    | None \<Rightarrow> (dayFormat steps dist_km calories, lg))))))"

section \<open>Durations in hours and minutes\<close>

declare durationLoop.simps [simp del]

lemma Hours_of_pos: "0 < d \<Longrightarrow> Hours d = of_int d / 3600000000000"
  using of_int_div_aux [of d 3600000000000, where ?'a = real]
  by (simp add: Hours_def Hour_def Minute_def Second_def Millisecond_def Microsecond_def
      Nanosecond_def signed_divide_int_def signed_modulo_int_def Let_def)

lemma Hours_pos: "0 < d \<Longrightarrow> 0 < Hours d"
  by (simp add: Hours_of_pos)

lemma Minutes_of_pos: "0 < d \<Longrightarrow> Minutes d = of_int d / 60000000000"
  using of_int_div_aux [of d 60000000000, where ?'a = real]
  by (simp add: Minutes_def Hour_def Minute_def Second_def Millisecond_def Microsecond_def
      Nanosecond_def signed_divide_int_def signed_modulo_int_def Let_def)

lemma Hours_zero: "Hours 0 = 0"
  by (simp add: Hours_def signed_divide_int_def signed_modulo_int_def)

lemma meanSpeed_eq:
  "meanSpeed steps height duration =
     (if steps \<le> 0 \<or> height \<le> 0 \<or> duration \<le> 0 then 0
      else distance steps height / Hours duration)"
  by (simp add: meanSpeed_def meanSpeed_checked_def fdiv_def)

text \<open>
  Without the guard on a zero duration the division of \<open>meanSpeed\<close> would have a zero
  divisor: \<open>Duration(0).Hours()\<close> is 0.
\<close>

lemma fdiv_Hours_zero: "fdiv x (Hours 0) = None"
  by (simp add: fdiv_def Hours_zero)

section \<open>The calorie formulas\<close>

text \<open>
  C1. \<open>RunningSpentCalories\<close> checks steps, weight, height and duration in this order;
  the first one that is not positive determines the error, and the value returned with
  it is 0. When all four are positive there is no error and the value is
  \<open>weight * meanSpeed(steps, height, duration) * duration.Minutes() / 60\<close>.
\<close>

theorem RunningSpentCalories_checks_in_order:
  "(steps \<le> 0 \<longrightarrow>
      RunningSpentCalories steps weight height duration = (0, Some (StepsNotPositive steps)))
   \<and> (0 < steps \<and> weight \<le> 0 \<longrightarrow>
      RunningSpentCalories steps weight height duration = (0, Some (WeightNotPositive weight)))
   \<and> (0 < steps \<and> 0 < weight \<and> height \<le> 0 \<longrightarrow>
      RunningSpentCalories steps weight height duration = (0, Some (HeightNotPositive height)))
   \<and> (0 < steps \<and> 0 < weight \<and> 0 < height \<and> duration \<le> 0 \<longrightarrow>
      RunningSpentCalories steps weight height duration =
        (0, Some (DurationNotPositive duration)))
   \<and> (0 < steps \<and> 0 < weight \<and> 0 < height \<and> 0 < duration \<longrightarrow>
      RunningSpentCalories steps weight height duration =
        (weight * meanSpeed steps height duration * Minutes duration / 60, None))"
  by (simp add: RunningSpentCalories_def minInH_def)

theorem RunningSpentCalories_checks_in_order_witness:
  "RunningSpentCalories 0 0 0 0 = (0, Some (StepsNotPositive 0))
   \<and> RunningSpentCalories 5000 0 0 0 = (0, Some (WeightNotPositive 0))
   \<and> RunningSpentCalories 5000 70 (- 1) 0 = (0, Some (HeightNotPositive (- 1)))
   \<and> RunningSpentCalories 5000 70 175 (- 5) = (0, Some (DurationNotPositive (- 5)))
   \<and> RunningSpentCalories 5000 70 175 1800000000000 =
        (70 * meanSpeed 5000 175 1800000000000 * Minutes 1800000000000 / 60, None)
   \<and> RunningSpentCalories 5000 70 175 1800000000000 = (27562.5, None)"
  using RunningSpentCalories_checks_in_order [of 0 0 0 0]
    RunningSpentCalories_checks_in_order [of 5000 0 0 0]
    RunningSpentCalories_checks_in_order [of 5000 70 "- 1" 0]
    RunningSpentCalories_checks_in_order [of 5000 70 175 "- 5"]
    RunningSpentCalories_checks_in_order [of 5000 70 175 1800000000000]
  by (simp add: meanSpeed_eq distance_def Hours_of_pos Minutes_of_pos
      stepLengthCoefficient_def MInKm_def)

text \<open>
  C2. \<open>WalkingSpentCalories\<close> returns the error of \<open>RunningSpentCalories\<close> on the same
  arguments when there is one, and otherwise half of its value with no error; for
  positive arguments there is no error, so the walking value is half the running value.
\<close>

theorem WalkingSpentCalories_half_of_running:
  "(\<forall>e. snd (RunningSpentCalories steps weight height duration) = Some e \<longrightarrow>
        WalkingSpentCalories steps weight height duration = (0, Some e))
   \<and> (snd (RunningSpentCalories steps weight height duration) = None \<longrightarrow>
        WalkingSpentCalories steps weight height duration =
          (0.5 * fst (RunningSpentCalories steps weight height duration), None))
   \<and> (0 < steps \<and> 0 < weight \<and> 0 < height \<and> 0 < duration \<longrightarrow>
        snd (RunningSpentCalories steps weight height duration) = None
        \<and> WalkingSpentCalories steps weight height duration =
          (0.5 * fst (RunningSpentCalories steps weight height duration), None))"
  by (auto simp: WalkingSpentCalories_def walkingCaloriesCoefficient_def
      RunningSpentCalories_def split: prod.splits option.splits)

theorem WalkingSpentCalories_half_of_running_witness:
  "snd (RunningSpentCalories 0 70 175 1800000000000) = Some (StepsNotPositive 0)
   \<and> WalkingSpentCalories 0 70 175 1800000000000 = (0, Some (StepsNotPositive 0))
   \<and> snd (RunningSpentCalories 5000 70 175 1800000000000) = None
   \<and> WalkingSpentCalories 5000 70 175 1800000000000 =
        (0.5 * fst (RunningSpentCalories 5000 70 175 1800000000000), None)"
  using WalkingSpentCalories_half_of_running [of 0 70 175 1800000000000]
    WalkingSpentCalories_half_of_running [of 5000 70 175 1800000000000]
  by (simp add: RunningSpentCalories_def)

text \<open>
  C6. \<open>distance\<close> is \<open>0.45 * height * steps / 1000\<close> for positive steps and height, and
  0 when either is not positive; it has no error result.
\<close>

theorem distance_formula:
  "(0 < steps \<and> 0 < height \<longrightarrow>
      distance steps height = 0.45 * height * of_int steps / 1000)
   \<and> (steps \<le> 0 \<or> height \<le> 0 \<longrightarrow> distance steps height = 0)"
  by (auto simp: distance_def stepLengthCoefficient_def MInKm_def)

theorem distance_formula_witness:
  "distance 5000 175 = 0.45 * 175 * of_int 5000 / 1000 \<and> distance 5000 175 = 393.75
   \<and> distance 0 175 = 0 \<and> distance (- 3) 175 = 0 \<and> distance 5000 0 = 0
   \<and> distance 5000 (- 2) = 0"
  using distance_formula [of 5000 175] distance_formula [of 0 175]
    distance_formula [of "- 3" 175] distance_formula [of 5000 0]
    distance_formula [of 5000 "- 2"]
  by simp

text \<open>
  C7. The division of \<open>meanSpeed\<close> never has a zero divisor: on every input the checked
  body returns a value, the one \<open>meanSpeed\<close> gives to its callers. For positive steps,
  height and duration this value is \<open>distance(steps, height) / duration.Hours()\<close>,
  with a divisor that is not zero; when any of the three is not positive the guard
  returns 0.
\<close>

theorem meanSpeed_guarded:
  "meanSpeed_checked steps height duration = Some (meanSpeed steps height duration)
   \<and> (0 < steps \<and> 0 < height \<and> 0 < duration \<longrightarrow>
      meanSpeed_checked steps height duration = fdiv (distance steps height) (Hours duration)
      \<and> Hours duration \<noteq> 0
      \<and> meanSpeed steps height duration = distance steps height / Hours duration)
   \<and> (steps \<le> 0 \<or> height \<le> 0 \<or> duration \<le> 0 \<longrightarrow>
      meanSpeed_checked steps height duration = Some 0
      \<and> meanSpeed steps height duration = 0)"
proof -
  have "Hours duration \<noteq> 0" if "0 < duration"
    using Hours_pos [OF that] by simp
  then show ?thesis
    by (auto simp: meanSpeed_def meanSpeed_checked_def fdiv_def)
qed

theorem meanSpeed_guarded_witness:
  "meanSpeed_checked 5000 175 1800000000000 = Some (meanSpeed 5000 175 1800000000000)
   \<and> meanSpeed_checked 5000 175 1800000000000 =
       fdiv (distance 5000 175) (Hours 1800000000000)
   \<and> Hours 1800000000000 \<noteq> 0
   \<and> meanSpeed 5000 175 1800000000000 = distance 5000 175 / Hours 1800000000000
   \<and> meanSpeed 5000 175 1800000000000 = 787.5
   \<and> meanSpeed_checked 0 175 1800000000000 = Some 0
   \<and> meanSpeed_checked 5000 0 1800000000000 = Some 0
   \<and> meanSpeed_checked 5000 175 0 = Some 0 \<and> meanSpeed 5000 175 0 = 0
   \<and> meanSpeed_checked 5000 175 (- 1) = Some 0 \<and> meanSpeed 5000 175 (- 1) = 0"
proof -
  have "distance 5000 175 / Hours 1800000000000 = 787.5"
    by (simp add: distance_def stepLengthCoefficient_def MInKm_def Hours_of_pos)
  then show ?thesis
    using meanSpeed_guarded [of 5000 175 1800000000000]
      meanSpeed_guarded [of 0 175 1800000000000]
      meanSpeed_guarded [of 5000 0 1800000000000]
      meanSpeed_guarded [of 5000 175 0]
      meanSpeed_guarded [of 5000 175 "- 1"]
    by auto
qed

section \<open>Evaluating the parsers and the formats\<close>

lemmas atoi_eval = Atoi_def atoiFast_def ParseInt_def ParseUint_def isDigit_def digitVal_def
  Let_def

lemmas duration_eval = ParseDuration_def durationLoop.simps parseGroup_def unitMap_def
  unitByte_def isDigit_def digitVal_def Let_def

lemmas round64_eval = fractionNanos_def round64_def ilog2_def pow2_def bits.simps
  roundHalfEven_def times10_def

text \<open>
  The fraction of a duration follows the rounding of \<open>float64\<close>: seventeen nines after
  the point are one nanosecond, where the exact quotient lies below 1, and
  \<open>0.00000000000750h\<close> is 26 nanoseconds, where the exact product is 27.
\<close>

lemma ParseDuration_fractions:
  "ParseDuration ''1.5h'' = Inr 5400000000000"
  "ParseDuration ''0.99999999999999999ns'' = Inr 1"
  "ParseDuration ''0.00100000000000us'' = Inr 0"
  "ParseDuration ''0.00000000000750h'' = Inr 26"
  by (simp_all add: duration_eval round64_eval)

lemma digitChar_eval:
  "digitChar 0 = CHR ''0''" "digitChar 1 = CHR ''1''" "digitChar 2 = CHR ''2''"
  "digitChar 3 = CHR ''3''" "digitChar 4 = CHR ''4''" "digitChar 5 = CHR ''5''"
  "digitChar 6 = CHR ''6''" "digitChar 7 = CHR ''7''" "digitChar 8 = CHR ''8''"
  "digitChar 9 = CHR ''9''" "digitChar (Suc 0) = CHR ''1''"
  by (simp_all add: digitChar_def char_of_def bit_iff_odd)

lemma digitChar_digit:
  assumes "n < 10"
  shows "isDigit (digitChar n)" and "digitVal (digitChar n) = n"
proof -
  have "n \<in> {0, 1, 2, 3, 4, 5, 6, 7, 8, 9}"
    using assms by auto
  then show "isDigit (digitChar n)" and "digitVal (digitChar n) = n"
    by (auto simp: digitChar_eval isDigit_def digitVal_def simp flip: One_nat_def)
qed

section \<open>The daily report\<close>

lemma parsePackage_ok:
  assumes "parsePackage data = (steps, duration, None)"
  shows "0 < steps" and "0 < duration"
  using assms
  by (auto simp: parsePackage_def Let_def split: if_splits sum.splits)

lemma parsePackage_fields:
  assumes "Split data (CHR '','') = [stepCount, durationText]"
  shows "parsePackage data =
     (case Atoi stepCount of
        Inl err \<Rightarrow> (0, 0, Some (ParsingStepsFailed err))
      | Inr count \<Rightarrow>
          if count \<le> 0 then (0, 0, Some (StepsNotPositive count))
          else (case ParseDuration durationText of
            Inl err \<Rightarrow> (0, 0, Some (ParsingDurationFailed err))
          | Inr duration \<Rightarrow>
              if duration \<le> 0 then (0, 0, Some (WalkDurationNotPositive duration))
              else (count, duration, None)))"
  using assms by (simp add: parsePackage_def)

text \<open>
  C3. \<open>DayActionInfo\<close> returns the empty string when the weight or the height is not
  positive, when the data does not split at commas into exactly two fields, when the
  first field is not accepted by \<open>strconv.Atoi\<close> or is an integer that is not positive,
  and when the second field is not accepted by \<open>time.ParseDuration\<close> or is a duration
  that is not positive. The result of \<open>DayActionInfo\<close> is a string: it has no error
  component.
\<close>

theorem DayActionInfo_empty_on_invalid:
  assumes "weight \<le> 0 \<or> height \<le> 0
    \<or> length (Split data (CHR '','')) \<noteq> 2
    \<or> (\<exists>stepCount durationText.
          Split data (CHR '','') = [stepCount, durationText]
          \<and> ((\<exists>e. Atoi stepCount = Inl e)
             \<or> (\<exists>n. Atoi stepCount = Inr n \<and> n \<le> 0)
             \<or> (\<exists>e. ParseDuration durationText = Inl e)
             \<or> (\<exists>d. ParseDuration durationText = Inr d \<and> d \<le> 0)))"
  shows "fst (DayActionInfo data weight height lg) = []"
proof -
  consider (w) "weight \<le> 0 \<or> height \<le> 0"
    | (n) "length (Split data (CHR '','')) \<noteq> 2"
    | (f) stepCount durationText where
        "Split data (CHR '','') = [stepCount, durationText]"
        "(\<exists>e. Atoi stepCount = Inl e)
             \<or> (\<exists>n. Atoi stepCount = Inr n \<and> n \<le> 0)
             \<or> (\<exists>e. ParseDuration durationText = Inl e)
             \<or> (\<exists>d. ParseDuration durationText = Inr d \<and> d \<le> 0)"
    using assms by blast
  then show ?thesis
  proof cases
    case w
    then show ?thesis by (auto simp: DayActionInfo_def)
  next
    case n
    then have "parsePackage data = (0, 0, Some (DayInvalidFormat data))"
      by (simp add: parsePackage_def)
    then show ?thesis by (simp add: DayActionInfo_def)
  next
    case f
    then have "\<exists>e. parsePackage data = (0, 0, Some e)"
      by (auto simp: parsePackage_fields split: sum.splits)
    then show ?thesis by (auto simp: DayActionInfo_def)
  qed
qed

theorem DayActionInfo_empty_on_invalid_witness:
  "fst (DayActionInfo ''5000,30m'' 0 175 []) = []
   \<and> fst (DayActionInfo ''5000,30m'' 70 (- 1) []) = []
   \<and> fst (DayActionInfo ''5000'' 70 175 []) = []
   \<and> fst (DayActionInfo ''5000,30m,1'' 70 175 []) = []
   \<and> fst (DayActionInfo ''abc,30m'' 70 175 []) = []
   \<and> fst (DayActionInfo ''0,30m'' 70 175 []) = []
   \<and> fst (DayActionInfo ''-5,30m'' 70 175 []) = []
   \<and> fst (DayActionInfo ''5000,abc'' 70 175 []) = []
   \<and> fst (DayActionInfo ''5000,0'' 70 175 []) = []
   \<and> fst (DayActionInfo ''5000,-30m'' 70 175 []) = []"
proof -
  have "Atoi ''abc'' = Inl (ErrSyntax ''abc'')" "Atoi ''0'' = Inr 0" "Atoi ''-5'' = Inr (- 5)"
    by (simp_all add: atoi_eval)
  moreover have "ParseDuration ''abc'' = Inl (InvalidDuration ''abc'')"
    "ParseDuration ''0'' = Inr 0" "ParseDuration ''-30m'' = Inr (- 1800000000000)"
    by (simp_all add: duration_eval)
  ultimately show ?thesis
    using DayActionInfo_empty_on_invalid [of 0 175 "''5000,30m''" "[]"]
      DayActionInfo_empty_on_invalid [of 70 "- 1" "''5000,30m''" "[]"]
      DayActionInfo_empty_on_invalid [of 70 175 "''5000''" "[]"]
      DayActionInfo_empty_on_invalid [of 70 175 "''5000,30m,1''" "[]"]
      DayActionInfo_empty_on_invalid [of 70 175 "''abc,30m''" "[]"]
      DayActionInfo_empty_on_invalid [of 70 175 "''0,30m''" "[]"]
      DayActionInfo_empty_on_invalid [of 70 175 "''-5,30m''" "[]"]
      DayActionInfo_empty_on_invalid [of 70 175 "''5000,abc''" "[]"]
      DayActionInfo_empty_on_invalid [of 70 175 "''5000,0''" "[]"]
      DayActionInfo_empty_on_invalid [of 70 175 "''5000,-30m''" "[]"]
    by simp
qed

section \<open>Properties of the standard library functions\<close>

text \<open>
  \<open>strconv.Atoi\<close> reads back what \<open>%d\<close> prints, for every value of the 64-bit range that
  is not negative; a field without a comma is not split; a string that
  \<open>time.ParseDuration\<close> accepts holds no comma.
\<close>

lemma isDigit_not_sign:
  "isDigit c \<Longrightarrow> c \<noteq> CHR ''-'' \<and> c \<noteq> CHR ''+'' \<and> c \<noteq> CHR '','' \<and> c \<noteq> CHR ''.''"
  by (auto simp: isDigit_def)

lemma utoa_digits: "c \<in> set (utoa n) \<Longrightarrow> isDigit c"
proof (induction n arbitrary: c rule: utoa.induct)
  case (1 n)
  show ?case
  proof (cases "n < 10")
    case True
    then show ?thesis using "1.prems" digitChar_digit(1) [of n]
      by (simp add: utoa.simps [of n])
  next
    case False
    then show ?thesis using "1.prems" "1.IH" digitChar_digit(1) [of "n mod 10"]
      by (auto simp: utoa.simps [of n])
  qed
qed

lemma utoa_not_Nil: "utoa n \<noteq> []"
  by (simp add: utoa.simps [of n])

lemma atoiFastLoop_append:
  "atoiFastLoop (xs @ [c]) acc =
     (case atoiFastLoop xs acc of
        None \<Rightarrow> None
      | Some m \<Rightarrow> if isDigit c then Some (m * 10 + int (digitVal c)) else None)"
  by (induction xs arbitrary: acc) auto

lemma atoiFastLoop_utoa: "atoiFastLoop (utoa n) 0 = Some (int n)"
proof (induction n rule: utoa.induct)
  case (1 n)
  show ?case
  proof (cases "n < 10")
    case True
    then show ?thesis using digitChar_digit [of n]
      by (simp add: utoa.simps [of n])
  next
    case False
    then have "atoiFastLoop (utoa (n div 10)) 0 = Some (int (n div 10))"
      using "1.IH" by simp
    moreover have "int (n div 10) * 10 + int (n mod 10) = int n"
      by presburger
    ultimately show ?thesis using False digitChar_digit [of "n mod 10"]
      by (simp add: utoa.simps [of n] atoiFastLoop_append)
  qed
qed

lemma parseUintLoop_append:
  "parseUintLoop (xs @ [c]) acc =
     (case parseUintLoop xs acc of
        UintOk m \<Rightarrow>
          if \<not> isDigit c then UintSyntax
          else if m \<ge> (2 ^ 64 - 1) div 10 + 1 then UintRange
          else if m * 10 + digitVal c > 2 ^ 64 - 1 then UintRange
          else UintOk (m * 10 + digitVal c)
      | UintSyntax \<Rightarrow> UintSyntax
      | UintRange \<Rightarrow> UintRange)"
  by (induction xs arbitrary: acc) (auto simp: Let_def)

lemma parseUintLoop_utoa:
  "n < 2 ^ 64 \<Longrightarrow> parseUintLoop (utoa n) 0 = UintOk n"
proof (induction n rule: utoa.induct)
  case (1 n)
  show ?case
  proof (cases "n < 10")
    case True
    then show ?thesis using digitChar_digit [of n]
      by (simp add: utoa.simps [of n])
  next
    case False
    then have "parseUintLoop (utoa (n div 10)) 0 = UintOk (n div 10)"
      using "1.IH" "1.prems" by simp
    moreover have "n div 10 < 1844674407370955162" "n div 10 * 10 + n mod 10 = n"
      using "1.prems" by simp_all
    ultimately show ?thesis using False "1.prems" digitChar_digit [of "n mod 10"]
      by (simp add: utoa.simps [of n] parseUintLoop_append)
  qed
qed

lemma Atoi_utoa:
  assumes "n < 2 ^ 63"
  shows "Atoi (utoa n) = Inr (int n)"
proof -
  have hd: "isDigit (hd (utoa n))"
    using utoa_digits [of "hd (utoa n)" n] utoa_not_Nil [of n] by simp
  then have sign: "hd (utoa n) \<noteq> CHR ''-''" "hd (utoa n) \<noteq> CHR ''+''"
    using isDigit_not_sign by blast+
  have fast: "atoiFast (utoa n) = Inr (int n)"
    using sign utoa_not_Nil [of n] by (simp add: atoiFast_def atoiFastLoop_utoa)
  have "n < 2 ^ 64" using assms by simp
  then have slow: "ParseInt (utoa n) = Inr (int n)"
    using sign utoa_not_Nil [of n] assms
    by (simp add: ParseInt_def ParseUint_def parseUintLoop_utoa)
  show ?thesis using fast slow by (simp add: Atoi_def)
qed

lemma Atoi_itoa: "0 \<le> s \<Longrightarrow> s \<le> 9223372036854775807 \<Longrightarrow> Atoi (itoa s) = Inr s"
  using Atoi_utoa [of "nat s"] by (simp add: itoa_def)

lemma Split_no_sep: "sep \<notin> set s \<Longrightarrow> Split s sep = [s]"
  by (induction s) auto

lemma Split_append: "sep \<notin> set a \<Longrightarrow> Split (a @ sep # b) sep = a # Split b sep"
  by (induction a) auto

lemma leadingInt_digits:
  "leadingInt t x = Some (w, r) \<Longrightarrow> \<exists>ds. t = ds @ r \<and> (\<forall>c \<in> set ds. isDigit c)"
proof (induction t arbitrary: x)
  case Nil
  then show ?case by simp
next
  case (Cons c cs)
  show ?case
  proof (cases "isDigit c")
    case False
    then show ?thesis using Cons.prems by auto
  next
    case True
    then obtain x1 where "leadingInt cs x1 = Some (w, r)"
      using Cons.prems by (auto simp: Let_def split: if_splits)
    then obtain ds where "cs = ds @ r" "\<forall>c \<in> set ds. isDigit c"
      using Cons.IH by blast
    then have "c # cs = (c # ds) @ r \<and> (\<forall>c \<in> set (c # ds). isDigit c)"
      using True by simp
    then show ?thesis by blast
  qed
qed

lemma leadingFraction_digits:
  "\<exists>ds. t = ds @ snd (snd (leadingFraction t x sc ov)) \<and> (\<forall>c \<in> set ds. isDigit c)"
proof (induction t arbitrary: x sc ov)
  case Nil
  then show ?case by simp
next
  case (Cons c cs)
  show ?case
  proof (cases "isDigit c")
    case False
    then show ?thesis by auto
  next
    case True
    then have "\<exists>x1 sc1 ov1.
      leadingFraction (c # cs) x sc ov = leadingFraction cs x1 sc1 ov1"
      by (cases ov; cases "(2 ^ 63 - 1) div 10 < x"; cases "2 ^ 63 < x * 10 + digitVal c")
        (simp_all add: Let_def, blast+)
    then obtain x1 sc1 ov1 where
      "leadingFraction (c # cs) x sc ov = leadingFraction cs x1 sc1 ov1"
      by blast
    moreover obtain ds where "cs = ds @ snd (snd (leadingFraction cs x1 sc1 ov1))"
      "\<forall>c \<in> set ds. isDigit c"
      using Cons.IH by blast
    ultimately have "c # cs = (c # ds) @ snd (snd (leadingFraction (c # cs) x sc ov))
       \<and> (\<forall>c \<in> set (c # ds). isDigit c)"
      using True by simp
    then show ?thesis by blast
  qed
qed

lemma unitMap_no_comma: "unitMap u = Some k \<Longrightarrow> CHR '','' \<notin> set u"
  by (auto simp: unitMap_def split: if_splits)

lemma parseGroup_comma:
  assumes "parseGroup orig s = Inr (v, rest)" and "s \<noteq> []" and "CHR '','' \<in> set s"
  shows "CHR '','' \<in> set rest"
proof -
  obtain w s1 where l1: "leadingInt s 0 = Some (w, s1)"
    using assms(1) by (auto simp: parseGroup_def split: if_splits option.splits)
  define dot where "dot = (s1 \<noteq> [] \<and> hd s1 = CHR ''.'')"
  define s2 where
    "s2 = snd (snd (if dot then leadingFraction (tl s1) 0 (Some 1) False
                    else (0, Some 1, s1)))"
  have u: "unitMap (takeWhile unitByte s2) \<noteq> None" and rest: "rest = dropWhile unitByte s2"
    using assms(1) l1
    by (auto simp: parseGroup_def Let_def s2_def dot_def split: if_splits option.splits)
  obtain ds1 where ds1: "s = ds1 @ s1" "\<forall>c \<in> set ds1. isDigit c"
    using leadingInt_digits [OF l1] by blast
  have c1: "CHR '','' \<in> set s1"
    using assms(3) ds1 isDigit_not_sign by auto
  have c2: "CHR '','' \<in> set s2"
  proof (cases dot)
    case False
    then show ?thesis using c1 by (simp add: s2_def)
  next
    case True
    then have s1: "s1 = CHR ''.'' # tl s1"
      by (cases s1) (auto simp: dot_def)
    obtain ds2 where ds2: "tl s1 = ds2 @ s2" "\<forall>c \<in> set ds2. isDigit c"
      using leadingFraction_digits [of "tl s1" 0 "Some 1" False] True by (auto simp: s2_def)
    have "set s1 = insert (CHR ''.'') (set (tl s1))"
      by (subst s1) simp
    then have "CHR '','' \<in> set (tl s1)"
      using c1 by simp
    then show ?thesis using ds2 isDigit_not_sign by auto
  qed
  have "s2 = takeWhile unitByte s2 @ rest"
    by (simp add: rest)
  then have "set s2 = set (takeWhile unitByte s2) \<union> set rest"
    by (metis set_append)
  moreover have "CHR '','' \<notin> set (takeWhile unitByte s2)"
    using u unitMap_no_comma by blast
  ultimately show ?thesis using c2 by blast
qed

lemma durationLoop_no_comma:
  "durationLoop orig s d = Inr r \<Longrightarrow> CHR '','' \<notin> set s"
proof (induction orig s d rule: durationLoop.induct)
  case (1 orig s d)
  show ?case
  proof (cases "s = []")
    case True
    then show ?thesis by simp
  next
    case False
    then obtain v rest where pg: "parseGroup orig s = Inr (v, rest)"
      and le: "\<not> (d + v) mod 2 ^ 64 > 2 ^ 63"
      and rec: "durationLoop orig rest ((d + v) mod 2 ^ 64) = Inr r"
      using "1.prems"
      by (auto simp: durationLoop.simps [of orig s d] Let_def split: sum.splits if_splits)
    have "CHR '','' \<notin> set rest"
      using "1.IH" [OF False pg refl refl le rec] .
    then show ?thesis using parseGroup_comma [OF pg False] by blast
  qed
qed

lemma ParseDuration_no_comma:
  assumes "ParseDuration t = Inr d"
  shows "CHR '','' \<notin> set t"
proof -
  define signed where "signed = (t \<noteq> [] \<and> (hd t = CHR ''-'' \<or> hd t = CHR ''+''))"
  define s where "s = (if signed then tl t else t)"
  have "s = ''0'' \<or> (\<exists>r. durationLoop t s 0 = Inr r)"
    using assms
    by (auto simp: ParseDuration_def Let_def s_def signed_def split: if_splits sum.splits)
  then have "CHR '','' \<notin> set s"
    using durationLoop_no_comma by auto
  moreover have "set t \<subseteq> {CHR ''-'', CHR ''+''} \<union> set s"
    by (cases t) (auto simp: s_def signed_def)
  ultimately show ?thesis by auto
qed

section \<open>The daily report on accepted data\<close>

lemma WalkingSpentCalories_pos:
  assumes "0 < steps" and "0 < weight" and "0 < height" and "0 < duration"
  shows "RunningSpentCalories steps weight height duration =
      (weight * meanSpeed steps height duration * Minutes duration / 60, None)"
    and "WalkingSpentCalories steps weight height duration =
      (weight * meanSpeed steps height duration * Minutes duration / 60 * 0.5, None)"
  using assms
  by (simp_all add: WalkingSpentCalories_def walkingCaloriesCoefficient_def
      RunningSpentCalories_def minInH_def)

lemma DayActionInfo_ok:
  assumes "0 < weight" and "0 < height"
    and "parsePackage data = (steps, duration, None)"
  shows "DayActionInfo data weight height lg =
     (dayFormat steps (of_int steps * LenStep / of_int MInKm)
        (fst (WalkingSpentCalories steps weight height duration)), lg)"
proof -
  have "snd (WalkingSpentCalories steps weight height duration) = None"
    using WalkingSpentCalories_pos(2) [OF _ assms(1,2)] parsePackage_ok [OF assms(3)]
    by simp
  then show ?thesis
    using assms by (auto simp: DayActionInfo_def split: prod.splits option.splits)
qed

lemma parsePackage_5000_30m: "parsePackage ''5000,30m'' = (5000, 1800000000000, None)"
  by (simp add: parsePackage_def atoi_eval duration_eval)

text \<open>
  C10. In \<open>DayActionInfo\<close>, once the weight and the height are positive and
  \<open>parsePackage\<close> has returned no error, the steps and the duration are positive and
  \<open>WalkingSpentCalories\<close> returns no error: the report is produced, and the branch that
  returns the empty string after the calorie computation is not taken.
\<close>

theorem WalkingSpentCalories_succeeds_in_DayActionInfo:
  assumes "0 < weight" and "0 < height"
    and "parsePackage data = (steps, duration, None)"
  shows "0 < steps \<and> 0 < duration
    \<and> snd (WalkingSpentCalories steps weight height duration) = None
    \<and> DayActionInfo data weight height lg =
        (dayFormat steps (of_int steps * LenStep / of_int MInKm)
           (fst (WalkingSpentCalories steps weight height duration)), lg)"
proof -
  have pos: "0 < steps" "0 < duration"
    using parsePackage_ok [OF assms(3)] by simp_all
  then have "snd (WalkingSpentCalories steps weight height duration) = None"
    using WalkingSpentCalories_pos(2) [OF _ assms(1,2)] by simp
  with pos DayActionInfo_ok [OF assms] show ?thesis by simp
qed

theorem WalkingSpentCalories_succeeds_in_DayActionInfo_witness:
  "(0 :: real) < 70 \<and> (0 :: real) < 175
   \<and> parsePackage ''5000,30m'' = (5000, 1800000000000, None)
   \<and> snd (WalkingSpentCalories 5000 70 175 1800000000000) = None
   \<and> DayActionInfo ''5000,30m'' 70 175 [] =
        (dayFormat 5000 (of_int 5000 * LenStep / of_int MInKm)
           (fst (WalkingSpentCalories 5000 70 175 1800000000000)), [])"
  using WalkingSpentCalories_succeeds_in_DayActionInfo
    [of 70 175 "''5000,30m''" 5000 1800000000000 "[]"] parsePackage_5000_30m
  by simp

text \<open>
  C8, for the step counts of the type \<open>int\<close>. For every step count \<open>s\<close> with
  \<open>0 < s \<le> 2^63 - 1\<close> (the positive values of Go's \<open>int\<close> on a 64-bit platform), every
  text that \<open>time.ParseDuration\<close> accepts as a positive duration, and positive weight
  and height, \<open>DayActionInfo\<close> on the record made of the decimal \<open>s\<close>, a comma and the
  text returns the three-line report: a string that is not empty and contains the
  decimal \<open>s\<close>.
\<close>

theorem DayActionInfo_reports_steps:
  assumes "0 < s" and "s \<le> 9223372036854775807"
    and "ParseDuration durationText = Inr d" and "0 < d"
    and "0 < weight" and "0 < height"
  shows "fst (DayActionInfo (itoa s @ '','' @ durationText) weight height lg) =
        dayFormat s (of_int s * LenStep / of_int MInKm)
          (fst (WalkingSpentCalories s weight height d))
    \<and> fst (DayActionInfo (itoa s @ '','' @ durationText) weight height lg) \<noteq> []
    \<and> sublist (itoa s) (fst (DayActionInfo (itoa s @ '','' @ durationText) weight height lg))"
proof -
  have "CHR '','' \<notin> set (itoa s)"
    using assms(1) utoa_digits [of "CHR '',''" "nat s"] isDigit_not_sign [of "CHR '',''"]
    by (auto simp: itoa_def)
  then have "Split (itoa s @ '','' @ durationText) (CHR '','') = [itoa s, durationText]"
    using ParseDuration_no_comma [OF assms(3)] by (simp add: Split_append Split_no_sep)
  then have "parsePackage (itoa s @ '','' @ durationText) = (s, d, None)"
    using assms(1-4) Atoi_itoa [of s] by (simp add: parsePackage_fields)
  then have out: "fst (DayActionInfo (itoa s @ '','' @ durationText) weight height lg) =
        dayFormat s (of_int s * LenStep / of_int MInKm)
          (fst (WalkingSpentCalories s weight height d))"
    using DayActionInfo_ok [OF assms(5,6)] by simp
  have "dayFormat s x c \<noteq> []" for x c
    by (simp add: dayFormat_def)
  moreover have "sublist (itoa s) (dayFormat s x c)" for x c
    unfolding dayFormat_def by (rule sublist_appendI)
  ultimately show ?thesis using out by simp
qed

theorem DayActionInfo_reports_steps_witness:
  "(0 :: int) < 5000 \<and> (5000 :: int) \<le> 9223372036854775807
   \<and> ParseDuration ''1h30m'' = Inr 5400000000000 \<and> itoa 5000 = ''5000''
   \<and> fst (DayActionInfo ''5000,1h30m'' 70 175 []) =
        dayFormat 5000 (of_int 5000 * LenStep / of_int MInKm)
          (fst (WalkingSpentCalories 5000 70 175 5400000000000))
   \<and> fst (DayActionInfo ''5000,1h30m'' 70 175 []) \<noteq> []
   \<and> sublist ''5000'' (fst (DayActionInfo ''5000,1h30m'' 70 175 []))"
proof -
  have d: "ParseDuration ''1h30m'' = Inr 5400000000000"
    by (simp add: duration_eval)
  have i: "itoa 5000 = ''5000''"
    by (simp add: itoa_def utoa.simps digitChar_eval)
  show ?thesis
    using DayActionInfo_reports_steps [of 5000 "''1h30m''" 5400000000000 70 175 "[]"] d i
    by auto
qed

text \<open>
  C8, beyond the type \<open>int\<close>. The step count \<open>2^63\<close> is a positive integer that
  \<open>strconv.Atoi\<close> rejects as out of range: on the record made of its decimal, a comma
  and \<open>30m\<close>, with positive weight and height, the result is the empty string, and the
  error is printed to the log.
\<close>

theorem DayActionInfo_step_count_out_of_range:
  "(0 :: int) < 9223372036854775808
   \<and> itoa 9223372036854775808 = ''9223372036854775808''
   \<and> ParseDuration ''30m'' = Inr 1800000000000
   \<and> DayActionInfo (itoa 9223372036854775808 @ '','' @ ''30m'') 70 175 [] =
       ([], [ParsingStepsFailed (ErrRange ''9223372036854775808'')])"
proof -
  have i: "itoa 9223372036854775808 = ''9223372036854775808''"
    by (simp add: itoa_def utoa.simps digitChar_eval)
  have d: "ParseDuration ''30m'' = Inr 1800000000000"
    by (simp add: duration_eval)
  have a: "Atoi ''9223372036854775808'' = Inl (ErrRange ''9223372036854775808'')"
    by (simp add: atoi_eval)
  have "parsePackage ''9223372036854775808,30m'' =
      (0, 0, Some (ParsingStepsFailed (ErrRange ''9223372036854775808'')))"
    by (simp add: parsePackage_def a)
  then have "DayActionInfo ''9223372036854775808,30m'' 70 175 [] =
       ([], [ParsingStepsFailed (ErrRange ''9223372036854775808'')])"
    by (simp add: DayActionInfo_def Println_def)
  with i d show ?thesis by simp
qed

section \<open>The training report\<close>

lemma running_neq_walking: "running \<noteq> walking"
  by (simp add: running_def walking_def)

lemma parseTraining_ok:
  assumes "parseTraining data = (steps, activity, duration, None)"
  shows "0 < steps" and "0 < duration"
  using assms
  by (auto simp: parseTraining_def Let_def split: if_splits sum.splits)

lemma TrainingInfo_ok:
  assumes "0 < weight" and "0 < height"
    and "parseTraining data = (steps, activity, duration, None)"
  shows "TrainingInfo data weight height lg =
     (if activity = running then
        ((trainingFormat activity (Hours duration) (distance steps height)
            (meanSpeed steps height duration)
            (weight * meanSpeed steps height duration * Minutes duration / 60), None), lg)
      else if activity = walking then
        ((trainingFormat activity (Hours duration) (distance steps height)
            (meanSpeed steps height duration)
            (weight * meanSpeed steps height duration * Minutes duration / 60 * 0.5),
          None), lg)
      else (([], Some UnknownTrainingType), lg))"
  using assms WalkingSpentCalories_pos [OF _ assms(1,2), of steps duration]
    parseTraining_ok [OF assms(3)]
  by (simp add: TrainingInfo_def Let_def)

lemma parseTraining_5000_30m:
  "parseTraining (''5000,'' @ running @ '',30m'') = (5000, running, 1800000000000, None)"
  "parseTraining (''5000,'' @ walking @ '',30m'') = (5000, walking, 1800000000000, None)"
  "parseTraining ''5000,swim,30m'' = (5000, ''swim'', 1800000000000, None)"
  by (simp_all add: parseTraining_def running_def walking_def atoi_eval duration_eval)

text \<open>
  C4. On data that \<open>parseTraining\<close> accepts, with positive weight and height,
  \<open>TrainingInfo\<close> dispatches on the activity label. The label \<open>running\<close> gives the report
  with the calories of \<open>RunningSpentCalories\<close>, the label \<open>walking\<close> the report with
  the calories of \<open>WalkingSpentCalories\<close>, and any other label the error of the
  \<open>default\<close> branch with the empty string. On every input, a result with an error has
  the empty string.
\<close>

theorem TrainingInfo_dispatch:
  "(0 < weight \<and> 0 < height \<and> parseTraining data = (steps, activity, duration, None) \<longrightarrow>
      (activity = running \<longrightarrow>
         TrainingInfo data weight height lg =
           ((trainingFormat activity (Hours duration) (distance steps height)
               (meanSpeed steps height duration)
               (fst (RunningSpentCalories steps weight height duration)), None), lg)
         \<and> RunningSpentCalories steps weight height duration =
             (weight * meanSpeed steps height duration * Minutes duration / 60, None))
      \<and> (activity = walking \<longrightarrow>
         TrainingInfo data weight height lg =
           ((trainingFormat activity (Hours duration) (distance steps height)
               (meanSpeed steps height duration)
               (fst (WalkingSpentCalories steps weight height duration)), None), lg)
         \<and> WalkingSpentCalories steps weight height duration =
             (weight * meanSpeed steps height duration * Minutes duration / 60 * 0.5, None))
      \<and> (activity \<noteq> running \<and> activity \<noteq> walking \<longrightarrow>
         TrainingInfo data weight height lg = (([], Some UnknownTrainingType), lg)))
   \<and> (snd (fst (TrainingInfo data weight height lg)) \<noteq> None \<longrightarrow>
        fst (fst (TrainingInfo data weight height lg)) = [])"
proof -
  have "snd (fst (TrainingInfo data weight height lg)) \<noteq> None \<longrightarrow>
        fst (fst (TrainingInfo data weight height lg)) = []"
    by (simp add: TrainingInfo_def Let_def split: prod.splits option.splits)
  moreover have "(activity = running \<longrightarrow>
         TrainingInfo data weight height lg =
           ((trainingFormat activity (Hours duration) (distance steps height)
               (meanSpeed steps height duration)
               (fst (RunningSpentCalories steps weight height duration)), None), lg)
         \<and> RunningSpentCalories steps weight height duration =
             (weight * meanSpeed steps height duration * Minutes duration / 60, None))
      \<and> (activity = walking \<longrightarrow>
         TrainingInfo data weight height lg =
           ((trainingFormat activity (Hours duration) (distance steps height)
               (meanSpeed steps height duration)
               (fst (WalkingSpentCalories steps weight height duration)), None), lg)
         \<and> WalkingSpentCalories steps weight height duration =
             (weight * meanSpeed steps height duration * Minutes duration / 60 * 0.5, None))
      \<and> (activity \<noteq> running \<and> activity \<noteq> walking \<longrightarrow>
         TrainingInfo data weight height lg = (([], Some UnknownTrainingType), lg))"
    if a: "0 < weight" "0 < height" "parseTraining data = (steps, activity, duration, None)"
    using TrainingInfo_ok [OF a, of lg] running_neq_walking
      WalkingSpentCalories_pos [OF _ a(1,2), of steps duration] parseTraining_ok [OF a(3)]
    by simp
  ultimately show ?thesis by blast
qed

theorem TrainingInfo_dispatch_witness:
  "parseTraining (''5000,'' @ running @ '',30m'') = (5000, running, 1800000000000, None)
   \<and> TrainingInfo (''5000,'' @ running @ '',30m'') 70 175 [] =
       ((trainingFormat running (Hours 1800000000000) (distance 5000 175)
           (meanSpeed 5000 175 1800000000000)
           (fst (RunningSpentCalories 5000 70 175 1800000000000)), None), [])
   \<and> parseTraining (''5000,'' @ walking @ '',30m'') = (5000, walking, 1800000000000, None)
   \<and> TrainingInfo (''5000,'' @ walking @ '',30m'') 70 175 [] =
       ((trainingFormat walking (Hours 1800000000000) (distance 5000 175)
           (meanSpeed 5000 175 1800000000000)
           (fst (WalkingSpentCalories 5000 70 175 1800000000000)), None), [])
   \<and> parseTraining ''5000,swim,30m'' = (5000, ''swim'', 1800000000000, None)
   \<and> TrainingInfo ''5000,swim,30m'' 70 175 [] = (([], Some UnknownTrainingType), [])
   \<and> snd (fst (TrainingInfo ''5000,swim,30m'' 0 175 [])) \<noteq> None
   \<and> fst (fst (TrainingInfo ''5000,swim,30m'' 0 175 [])) = []"
proof -
  have "''swim'' \<noteq> running" "''swim'' \<noteq> walking"
    by (simp_all add: running_def walking_def)
  moreover have "snd (fst (TrainingInfo ''5000,swim,30m'' 0 175 [])) \<noteq> None"
    by (simp add: TrainingInfo_def)
  ultimately show ?thesis
    using TrainingInfo_dispatch
        [of 70 175 "''5000,'' @ running @ '',30m''" 5000 running 1800000000000 "[]"]
      TrainingInfo_dispatch
        [of 70 175 "''5000,'' @ walking @ '',30m''" 5000 walking 1800000000000 "[]"]
      TrainingInfo_dispatch [of 70 175 "''5000,swim,30m''" 5000 "''swim''" 1800000000000 "[]"]
      TrainingInfo_dispatch [of 0 175 "''5000,swim,30m''" 5000 "''swim''" 1800000000000 "[]"]
      parseTraining_5000_30m running_neq_walking
    by simp
qed

section \<open>The two distances\<close>

text \<open>
  C5. The distance that \<open>DayActionInfo\<close> prints is \<open>steps * 0.65 / 1000\<close>, an expression
  without the height. The distance that \<open>TrainingInfo\<close> prints is
  \<open>0.45 * height * steps / 1000\<close>. The two differ: for 5000 steps and a height of 175
  the first is 3.25 and the second 393.75.
\<close>

theorem DayActionInfo_distance_fixed_stride:
  "(0 < weight \<and> 0 < height \<and> parsePackage data = (steps, duration, None) \<longrightarrow>
      fst (DayActionInfo data weight height lg) =
        dayFormat steps (of_int steps * 0.65 / 1000)
          (fst (WalkingSpentCalories steps weight height duration)))
   \<and> (0 < weight \<and> 0 < height \<and> parseTraining tdata = (tsteps, activity, tduration, None)
       \<and> (activity = running \<or> activity = walking) \<longrightarrow>
      (\<exists>calories. fst (fst (TrainingInfo tdata weight height lg)) =
        trainingFormat activity (Hours tduration) (0.45 * height * of_int tsteps / 1000)
          (meanSpeed tsteps height tduration) calories))
   \<and> of_int 5000 * LenStep / of_int MInKm = (3.25 :: real)
   \<and> distance 5000 175 = 393.75"
proof -
  have "fst (DayActionInfo data weight height lg) =
        dayFormat steps (of_int steps * 0.65 / 1000)
          (fst (WalkingSpentCalories steps weight height duration))"
    if "0 < weight" "0 < height" "parsePackage data = (steps, duration, None)"
    using DayActionInfo_ok [OF that, of lg] by (simp add: LenStep_def MInKm_def)
  moreover have "\<exists>calories. fst (fst (TrainingInfo tdata weight height lg)) =
        trainingFormat activity (Hours tduration) (0.45 * height * of_int tsteps / 1000)
          (meanSpeed tsteps height tduration) calories"
    if a: "0 < weight" "0 < height"
      "parseTraining tdata = (tsteps, activity, tduration, None)"
      and b: "activity = running \<or> activity = walking"
  proof -
    have d: "distance tsteps height = 0.45 * height * of_int tsteps / 1000"
      using a(2) parseTraining_ok(1) [OF a(3)]
      by (simp add: distance_def stepLengthCoefficient_def MInKm_def)
    have "\<exists>calories. fst (fst (TrainingInfo tdata weight height lg)) =
        trainingFormat activity (Hours tduration) (distance tsteps height)
          (meanSpeed tsteps height tduration) calories"
    proof (cases "activity = running")
      case True
      then have "fst (fst (TrainingInfo tdata weight height lg)) =
        trainingFormat activity (Hours tduration) (distance tsteps height)
          (meanSpeed tsteps height tduration)
          (weight * meanSpeed tsteps height tduration * Minutes tduration / 60)"
        by (simp add: TrainingInfo_ok [OF a])
      then show ?thesis by (rule exI)
    next
      case False
      then have "fst (fst (TrainingInfo tdata weight height lg)) =
        trainingFormat activity (Hours tduration) (distance tsteps height)
          (meanSpeed tsteps height tduration)
          (weight * meanSpeed tsteps height tduration * Minutes tduration / 60 * 0.5)"
        using b by (simp add: TrainingInfo_ok [OF a])
      then show ?thesis by (rule exI)
    qed
    then show ?thesis
      unfolding d .
  qed
  moreover have "of_int 5000 * LenStep / of_int MInKm = (3.25 :: real)"
    by (simp add: LenStep_def MInKm_def)
  moreover have "distance 5000 175 = 393.75"
    by (simp add: distance_def stepLengthCoefficient_def MInKm_def)
  ultimately show ?thesis by blast
qed

theorem DayActionInfo_distance_fixed_stride_witness:
  "parsePackage ''5000,30m'' = (5000, 1800000000000, None)
   \<and> fst (DayActionInfo ''5000,30m'' 70 175 []) =
        dayFormat 5000 (of_int 5000 * 0.65 / 1000)
          (fst (WalkingSpentCalories 5000 70 175 1800000000000))
   \<and> fst (DayActionInfo ''5000,30m'' 70 190 []) =
        dayFormat 5000 (of_int 5000 * 0.65 / 1000)
          (fst (WalkingSpentCalories 5000 70 190 1800000000000))
   \<and> parseTraining (''5000,'' @ running @ '',30m'') = (5000, running, 1800000000000, None)
   \<and> (\<exists>calories. fst (fst (TrainingInfo (''5000,'' @ running @ '',30m'') 70 175 [])) =
        trainingFormat running (Hours 1800000000000) (0.45 * 175 * of_int 5000 / 1000)
          (meanSpeed 5000 175 1800000000000) calories)
   \<and> formatFloat2 (of_int 5000 * 0.65 / 1000) = ''3.25''
   \<and> formatFloat2 (0.45 * 175 * of_int 5000 / 1000) = ''393.75''"
proof -
  have "formatFloat2 (of_int 5000 * 0.65 / 1000) = ''3.25''"
    "formatFloat2 (0.45 * 175 * of_int 5000 / 1000) = ''393.75''"
    by (simp_all add: formatFloat2_def roundHalfEven_def utoa.simps digitChar_eval Let_def)
  then show ?thesis
    using DayActionInfo_distance_fixed_stride
        [of 70 175 "''5000,30m''" 5000 1800000000000 "[]"
          "''5000,'' @ running @ '',30m''" 5000 running 1800000000000]
      DayActionInfo_distance_fixed_stride
        [of 70 190 "''5000,30m''" 5000 1800000000000 "[]"
          "''5000,'' @ running @ '',30m''" 5000 running 1800000000000]
      parsePackage_5000_30m parseTraining_5000_30m(1)
    by simp
qed

section \<open>Determinism\<close>

text \<open>
  C9. The result of \<open>DayActionInfo\<close> and the result of \<open>TrainingInfo\<close> (the string and
  the error) are functions of the three arguments: they do not depend on the state of
  the logger, the only state the program has, so two calls with the same arguments
  return the same.
\<close>

theorem reports_depend_on_arguments_only:
  "fst (DayActionInfo data weight height lg1) = fst (DayActionInfo data weight height lg2)
   \<and> fst (TrainingInfo data weight height lg1) = fst (TrainingInfo data weight height lg2)"
  by (simp add: DayActionInfo_def TrainingInfo_def Let_def
      split: prod.splits option.splits)

theorem reports_depend_on_arguments_only_witness:
  "fst (DayActionInfo ''5000,abc'' 70 175 []) =
     fst (DayActionInfo ''5000,abc'' 70 175 [UnknownTrainingType])
   \<and> fst (TrainingInfo ''5000,abc'' 70 175 []) =
     fst (TrainingInfo ''5000,abc'' 70 175 [UnknownTrainingType])"
  using reports_depend_on_arguments_only
    [of "''5000,abc''" 70 175 "[]" "[UnknownTrainingType]"]
  by simp

end
